theory Spec2Isabelle
  imports Complex_Main
begin

section \<open>Model capability interface and registry data (ml\_manager.h)\<close>

datatype MLModelType =
    SUPERPONT_DETECTOR
  | SUPERGLUE_MATCHER
  | LOFTR_MATCHER
  | DISK_DETECTOR
  | R2D2_DETECTOR
  | MVSNET_MVS
  | NERF_RENDERER
  | INSTANT_NGP

datatype MLBackend = PYTORCH | TENSORFLOW | ONNX | OPENVINO

datatype MLDevice = CPU | CUDA | OPENCL | VULKAN

text \<open>
  \<open>MLModelConfig\<close>. The \<open>std::unordered_map\<close> of string parameters is the list of its
  (key, value) entries in the order the range-for of \<open>Load\<close> visits them.
  C++ \<open>float\<close> values are idealised as reals throughout (no rounding, no NaN).
\<close>

record MLModelConfig =
  model_path :: string
  backend :: MLBackend
  device :: MLDevice
  use_fp16 :: bool
  batch_size :: int
  confidence_threshold :: real
  parameters :: "(string \<times> string) list"

text \<open>What a C++ exception or undefined operation becomes in the model.\<close>

datatype error = InvalidArgument | OutOfRange | UndefinedBehaviour

section \<open>The registry (ml\_manager.cc)\<close>

text \<open>
  A \<open>std::shared_ptr<MLModel>\<close> is \<open>None\<close> (the empty pointer) or \<open>Some a\<close>, the
  address \<open>a\<close> of a live model object. The only thing \<open>RegisterModel\<close> asks the
  object is its \<open>GetType()\<close>, which every model class answers with a constant; the
  registry functions take it as the function \<open>type_of\<close> from addresses to kinds.
\<close>

type_synonym addr = nat

type_synonym model_ptr = "addr option"

record MLManager =
  models :: "string \<rightharpoonup> addr"
  model_type_map :: "MLModelType \<rightharpoonup> string"
  cache_directory :: string
  download_enabled :: bool
  default_device :: MLDevice

text \<open>
  The default-constructed singleton: member initialisers of the class. The members are
  named as in the class, without the trailing underscore (not an Isabelle identifier).
\<close>

definition Instance :: MLManager where
  "Instance = \<lparr> models = Map.empty, model_type_map = Map.empty,
      cache_directory = [], download_enabled = True, default_device = CPU \<rparr>"

text \<open>\<open>RegisterModel\<close> returns its boolean together with the updated registry.\<close>

definition RegisterModel ::
  "(addr \<Rightarrow> MLModelType) \<Rightarrow> string \<Rightarrow> model_ptr \<Rightarrow> MLManager \<Rightarrow> bool \<times> MLManager" where
  "RegisterModel type_of name model m =
     (case model of
        None \<Rightarrow> (False, m)
      | Some a \<Rightarrow>
          (True, m\<lparr> models := (models m)(name \<mapsto> a),
                    model_type_map := (model_type_map m)(type_of a \<mapsto> name) \<rparr>))"

definition GetModel :: "string \<Rightarrow> MLManager \<Rightarrow> model_ptr" where
  "GetModel name m = (case models m name of None \<Rightarrow> None | Some a \<Rightarrow> Some a)"

definition GetModelByType :: "MLModelType \<Rightarrow> MLManager \<Rightarrow> model_ptr" where
  "GetModelByType t m =
     (case model_type_map m t of None \<Rightarrow> None | Some name \<Rightarrow> GetModel name m)"

text \<open>A run of registrations, in order, keeping the registry of the last one.\<close>

fun register_all ::
  "(addr \<Rightarrow> MLModelType) \<Rightarrow> (string \<times> model_ptr) list \<Rightarrow> MLManager \<Rightarrow> MLManager" where
  "register_all type_of [] m = m"
| "register_all type_of ((name, model) # rs) m =
     register_all type_of rs (snd (RegisterModel type_of name model m))"

definition GetAvailableDevices :: "MLManager \<Rightarrow> MLDevice list" where
  "GetAvailableDevices m = [CPU] @ [CUDA]"

definition IsDeviceAvailable :: "MLManager \<Rightarrow> MLDevice \<Rightarrow> bool" where
  "IsDeviceAvailable m dev = (dev \<in> set (GetAvailableDevices m))"

definition SetDefaultDevice :: "MLDevice \<Rightarrow> MLManager \<Rightarrow> MLManager" where
  "SetDefaultDevice dev m =
     (if IsDeviceAvailable m dev then m\<lparr> default_device := dev \<rparr> else m)"

definition GetDefaultDevice :: "MLManager \<Rightarrow> MLDevice" where
  "GetDefaultDevice m = default_device m"

section \<open>Keypoints, detector configurations and results\<close>

text \<open>
  \<open>FeatureKeypoint\<close>: position and 2x2 affine shape. The coordinates are the members
  \<open>x\<close> and \<open>y\<close> of the struct.
\<close>

record FeatureKeypoint =
  kp_x :: real
  kp_y :: real
  a11 :: real
  a12 :: real
  a21 :: real
  a22 :: real

definition keypoint_at :: "real \<Rightarrow> real \<Rightarrow> FeatureKeypoint" where
  "keypoint_at px py = \<lparr> kp_x = px, kp_y = py, a11 = 1, a12 = 0, a21 = 0, a22 = 1 \<rparr>"

record SuperPointConfig =
  max_keypoints :: int
  keypoint_threshold :: real
  remove_borders :: bool
  border_margin :: int
  use_nms :: bool
  nms_radius :: real
  compute_descriptors :: bool
  descriptor_dim :: int
  descriptor_threshold :: real

text \<open>
  \<open>DISKConfig\<close> declares the same nine members as \<open>SuperPointConfig\<close>, in the same
  order, followed by six of its own; the record extends the other one so that the
  shared member names are kept.
\<close>

record DISKConfig = SuperPointConfig +
  soft_threshold :: real
  patch_size :: int
  use_rotation_invariance :: bool
  rotation_threshold :: real
  use_scale_invariance :: bool
  scale_threshold :: real

definition SuperPointConfig_default :: SuperPointConfig where
  "SuperPointConfig_default =
     \<lparr> max_keypoints = 1024, keypoint_threshold = 5 / 1000, remove_borders = True,
       border_margin = 4, use_nms = True, nms_radius = 4, compute_descriptors = True,
       descriptor_dim = 256, descriptor_threshold = 1 / 10 \<rparr>"

definition DISKConfig_default :: DISKConfig where
  "DISKConfig_default =
     \<lparr> max_keypoints = 2048, keypoint_threshold = 5 / 1000, remove_borders = True,
       border_margin = 4, use_nms = True, nms_radius = 4, compute_descriptors = True,
       descriptor_dim = 128, descriptor_threshold = 1 / 10, soft_threshold = 1 / 10,
       patch_size = 32, use_rotation_invariance = True, rotation_threshold = 1 / 10,
       use_scale_invariance = True, scale_threshold = 1 / 10 \<rparr>"

section \<open>The confidence, border and top-K filter (FilterKeypoints)\<close>

text \<open>\<open>static_cast<size_t>\<close> of an \<open>int\<close>, on a 64-bit \<open>size_t\<close>.\<close>

definition size_t_of_int :: "int \<Rightarrow> nat" where
  "size_t_of_int i = nat (i mod 2 ^ 64)"

text \<open>
  \<open>std::sort\<close> with a comparator. The standard leaves the relative order of
  equivalent elements open, and an implementation may reorder them; the model takes
  the stable order (insertion from the right), the one choice that keeps equal
  scores in their original order. Elements that the comparator tells apart are
  ordered as any implementation orders them.
\<close>

fun insert_sorted :: "('a \<Rightarrow> 'a \<Rightarrow> bool) \<Rightarrow> 'a \<Rightarrow> 'a list \<Rightarrow> 'a list" where
  "insert_sorted cmp a [] = [a]"
| "insert_sorted cmp a (b # bs) =
     (if cmp b a then b # insert_sorted cmp a bs else a # b # bs)"

definition std_sort :: "('a \<Rightarrow> 'a \<Rightarrow> bool) \<Rightarrow> 'a list \<Rightarrow> 'a list" where
  "std_sort cmp xs = foldr (insert_sorted cmp) xs []"

text \<open>
  The border test of both \<open>FilterKeypoints\<close>: the body of \<open>if (config.remove_borders)\<close>,
  true when the keypoint is skipped (\<open>continue\<close>). Width and height are the two
  local constants of the source. The subtraction is that of the integers; the
  source's 32-bit \<open>width - margin\<close> overflows for a margin below \<open>640 - (2^31 - 1)\<close>,
  which the model does not cover.
\<close>

definition border_skip :: "int \<Rightarrow> FeatureKeypoint \<Rightarrow> bool" where
  "border_skip margin kp =
     (let width = (640::int); height = (480::int)
      in kp_x kp < real_of_int margin \<or> kp_x kp \<ge> real_of_int (width - margin) \<or>
         kp_y kp < real_of_int margin \<or> kp_y kp \<ge> real_of_int (height - margin))"

text \<open>The condition under which iteration \<open>i\<close> of the first loop pushes keypoint \<open>i\<close>.\<close>

definition passes_filter ::
  "'a SuperPointConfig_scheme \<Rightarrow> FeatureKeypoint list \<Rightarrow> real list \<Rightarrow> nat \<Rightarrow> bool" where
  "passes_filter config keypoints scores i =
     (scores ! i \<ge> keypoint_threshold config \<and>
      \<not> (remove_borders config \<and> border_skip (border_margin config) (keypoints ! i)))"

text \<open>
  \<open>SuperPointDetector::FilterKeypoints\<close>. Reading \<open>scores[i]\<close> past the end of a
  shorter score vector is undefined behaviour; otherwise the function returns its
  result vector. The sort compares \<open>filtered_scores\<close>.
\<close>

definition SuperPoint_FilterKeypoints ::
  "FeatureKeypoint list \<Rightarrow> real list \<Rightarrow> SuperPointConfig \<Rightarrow> error + FeatureKeypoint list" where
  "SuperPoint_FilterKeypoints keypoints scores config =
     (if length scores < length keypoints then Inl UndefinedBehaviour
      else
        let kept = filter (passes_filter config keypoints scores) [0..<length keypoints];
            filtered_keypoints = map ((!) keypoints) kept;
            filtered_scores = map ((!) scores) kept;
            indices = std_sort (\<lambda>a b. filtered_scores ! a > filtered_scores ! b)
                        [0..<length filtered_keypoints];
            num_keypoints = min (size_t_of_int (max_keypoints config)) (length indices)
        in Inr (map ((!) filtered_keypoints) (take num_keypoints indices)))"

text \<open>
  \<open>DISKDetector::FilterKeypoints\<close>. It keeps no \<open>filtered_scores\<close>: the sort of
  the indices of \<open>filtered_keypoints\<close> compares the entries of the unfiltered
  \<open>scores\<close> argument at those indices.
\<close>

definition DISK_FilterKeypoints ::
  "FeatureKeypoint list \<Rightarrow> real list \<Rightarrow> DISKConfig \<Rightarrow> error + FeatureKeypoint list" where
  "DISK_FilterKeypoints keypoints scores config =
     (if length scores < length keypoints then Inl UndefinedBehaviour
      else
        let kept = filter (passes_filter config keypoints scores) [0..<length keypoints];
            filtered_keypoints = map ((!) keypoints) kept;
            indices = std_sort (\<lambda>a b. scores ! a > scores ! b)
                        [0..<length filtered_keypoints];
            num_keypoints = min (size_t_of_int (max_keypoints config)) (length indices)
        in Inr (map ((!) filtered_keypoints) (take num_keypoints indices)))"

text \<open>
  The rule the border filter is specified by, for an image of the given width and
  height: a keypoint is inside when \<open>margin \<le> x < width - margin\<close> and
  \<open>margin \<le> y < height - margin\<close>.
\<close>

definition inside_image_border :: "int \<Rightarrow> int \<Rightarrow> int \<Rightarrow> FeatureKeypoint \<Rightarrow> bool" where
  "inside_image_border width height margin kp =
     (real_of_int margin \<le> kp_x kp \<and> kp_x kp < real_of_int (width - margin) \<and>
      real_of_int margin \<le> kp_y kp \<and> kp_y kp < real_of_int (height - margin))"

section \<open>Non-maximum suppression (DISK)\<close>

text \<open>\<open>DISKDetector::ApplySoftNMS\<close>: the function returns its first argument.\<close>

definition ApplySoftNMS ::
  "FeatureKeypoint list \<Rightarrow> real list \<Rightarrow> DISKConfig \<Rightarrow> FeatureKeypoint list" where
  "ApplySoftNMS keypoints scores config = keypoints"

definition pixel_distance :: "FeatureKeypoint \<Rightarrow> FeatureKeypoint \<Rightarrow> real" where
  "pixel_distance p q = sqrt ((kp_x p - kp_x q)\<^sup>2 + (kp_y p - kp_y q)\<^sup>2)"

section \<open>Descriptor normalisation (DISK)\<close>

text \<open>
  The coefficients of an \<open>Eigen::VectorXf\<close> are IEEE-754 binary32 numbers: a finite
  value, an infinity or a NaN. The sign of a zero is not distinguished.
\<close>

datatype binary32 = Finite real | PInf | NInf | NaN

text \<open>
  The binary32 result of an operation whose exact result is \<open>v\<close>, rounding to
  nearest: a magnitude of at least \<open>2^128 - 2^103\<close> (the largest finite value plus
  half a unit in its last place) gives an infinity, a magnitude of at most \<open>2^-150\<close>
  (half the smallest subnormal) gives zero. In between the result is the binary32
  value nearest to \<open>v\<close>; the function that picks it is the argument \<open>rnd\<close>.
\<close>

definition fl :: "(real \<Rightarrow> real) \<Rightarrow> real \<Rightarrow> binary32" where
  "fl rnd v =
     (if v \<ge> 2 ^ 128 - 2 ^ 103 then PInf
      else if v \<le> - (2 ^ 128 - 2 ^ 103) then NInf
      else if \<bar>v\<bar> \<le> 1 / 2 ^ 150 then Finite 0
      else Finite (rnd v))"

fun fsquare :: "(real \<Rightarrow> real) \<Rightarrow> binary32 \<Rightarrow> binary32" where
  "fsquare rnd (Finite a) = fl rnd (a * a)"
| "fsquare rnd PInf = PInf"
| "fsquare rnd NInf = PInf"
| "fsquare rnd NaN = NaN"

fun fadd :: "(real \<Rightarrow> real) \<Rightarrow> binary32 \<Rightarrow> binary32 \<Rightarrow> binary32" where
  "fadd rnd (Finite a) (Finite b) = fl rnd (a + b)"
| "fadd rnd NaN b = NaN"
| "fadd rnd a NaN = NaN"
| "fadd rnd PInf NInf = NaN"
| "fadd rnd NInf PInf = NaN"
| "fadd rnd PInf b = PInf"
| "fadd rnd a PInf = PInf"
| "fadd rnd NInf b = NInf"
| "fadd rnd a NInf = NInf"

fun fsqrt :: "(real \<Rightarrow> real) \<Rightarrow> binary32 \<Rightarrow> binary32" where
  "fsqrt rnd (Finite a) = (if a < 0 then NaN else fl rnd (sqrt a))"
| "fsqrt rnd PInf = PInf"
| "fsqrt rnd NInf = NaN"
| "fsqrt rnd NaN = NaN"

fun fdiv :: "(real \<Rightarrow> real) \<Rightarrow> binary32 \<Rightarrow> binary32 \<Rightarrow> binary32" where
  "fdiv rnd (Finite a) (Finite b) =
     (if b = 0 then (if a = 0 then NaN else if a > 0 then PInf else NInf)
      else fl rnd (a / b))"
| "fdiv rnd NaN b = NaN"
| "fdiv rnd a NaN = NaN"
| "fdiv rnd (Finite a) PInf = Finite 0"
| "fdiv rnd (Finite a) NInf = Finite 0"
| "fdiv rnd PInf (Finite b) = (if b \<ge> 0 then PInf else NInf)"
| "fdiv rnd NInf (Finite b) = (if b \<ge> 0 then NInf else PInf)"
| "fdiv rnd a b = NaN"

text \<open>The test \<open>norm > 0\<close>; a comparison with a NaN is false.\<close>

fun greater_zero :: "binary32 \<Rightarrow> bool" where
  "greater_zero (Finite a) = (a > 0)"
| "greater_zero PInf = True"
| "greater_zero NInf = False"
| "greater_zero NaN = False"

text \<open>
  \<open>VectorXf::norm()\<close> is the square root of \<open>squaredNorm()\<close>, the sum of the squared
  coefficients, each operation rounded to binary32. The model adds the squares from
  left to right; Eigen's vectorised reduction may add them in another order.
\<close>

definition squaredNorm :: "(real \<Rightarrow> real) \<Rightarrow> binary32 list \<Rightarrow> binary32" where
  "squaredNorm rnd desc =
     (case map (fsquare rnd) desc of
        [] \<Rightarrow> Finite 0
      | s # ss \<Rightarrow> foldl (fadd rnd) s ss)"

definition norm32 :: "(real \<Rightarrow> real) \<Rightarrow> binary32 list \<Rightarrow> binary32" where
  "norm32 rnd desc = fsqrt rnd (squaredNorm rnd desc)"

text \<open>
  \<open>DISKDetector::NormalizeDescriptors\<close>: \<open>desc / norm\<close> divides every coefficient
  by \<open>norm\<close>.
\<close>

definition NormalizeDescriptors ::
  "(real \<Rightarrow> real) \<Rightarrow> binary32 list list \<Rightarrow> binary32 list list" where
  "NormalizeDescriptors rnd descriptors =
     map (\<lambda>desc. let norm = norm32 rnd desc
                in if greater_zero norm then map (\<lambda>c. fdiv rnd c norm) desc else desc)
         descriptors"

section \<open>String conversion of configuration parameters\<close>

text \<open>
  \<open>std::stoi\<close> (C++ standard library, base 10): it skips leading white space, reads
  an optional sign and the longest run of decimal digits, and ignores what follows.
  It throws \<open>std::invalid_argument\<close> when there is no digit to convert and
  \<open>std::out_of_range\<close> when the value does not fit a 32-bit \<open>int\<close>.
\<close>

definition isspace :: "char \<Rightarrow> bool" where
  "isspace c = (c \<in> set [CHR '' '', CHR 0x09, CHR 0x0A, CHR 0x0B, CHR 0x0C, CHR 0x0D])"

definition isdigit :: "char \<Rightarrow> bool" where
  "isdigit c = (c \<in> set ''0123456789'')"

definition digit_value :: "char \<Rightarrow> nat" where
  "digit_value c = of_char c - 48"

definition decimal_value :: "string \<Rightarrow> nat" where
  "decimal_value ds = foldl (\<lambda>acc c. 10 * acc + digit_value c) 0 ds"

definition strip_sign :: "string \<Rightarrow> bool \<times> string" where
  "strip_sign s =
     (case s of
        [] \<Rightarrow> (False, [])
      | c # cs \<Rightarrow>
          if c = CHR ''-'' then (True, cs)
          else if c = CHR ''+'' then (False, cs)
          else (False, s))"

definition stoi :: "string \<Rightarrow> error + int" where
  "stoi str =
     (let (negative, rest) = strip_sign (dropWhile isspace str);
          ds = takeWhile isdigit rest
      in if ds = [] then Inl InvalidArgument
         else
           let v = (if negative then - int (decimal_value ds) else int (decimal_value ds))
           in if v < - (2 ^ 31) \<or> v > 2 ^ 31 - 1 then Inl OutOfRange else Inr v)"

text \<open>
  \<open>std::stof\<close> is not modelled: the functions that call it take it as the argument
  \<open>stof\<close>, a conversion that returns a value or throws.
\<close>

type_synonym stof_fn = "string \<Rightarrow> error + real"

section \<open>SuperPointDetector: Load, Unload, Detect\<close>

text \<open>
  The members of the class, prefixed \<open>sp\<close>; \<open>model_ptr_\<close> is an address, 0 for
  \<open>nullptr\<close>. \<open>sp_init_calls\<close> is not a member: it counts the calls of
  \<open>InitializeModel\<close> on the object.
\<close>

record SuperPointDetector =
  sp_loaded :: bool
  sp_backend :: MLBackend
  sp_device :: MLDevice
  sp_config :: SuperPointConfig
  sp_model_ptr :: nat
  sp_init_calls :: nat

definition SuperPointDetector_new :: SuperPointDetector where
  "SuperPointDetector_new =
     \<lparr> sp_loaded = False, sp_backend = PYTORCH, sp_device = CPU,
       sp_config = SuperPointConfig_default, sp_model_ptr = 0, sp_init_calls = 0 \<rparr>"

definition SuperPoint_InitializeModel :: "SuperPointDetector \<Rightarrow> bool \<times> SuperPointDetector" where
  "SuperPoint_InitializeModel d =
     (True, d\<lparr> sp_model_ptr := 0x12345678, sp_init_calls := Suc (sp_init_calls d) \<rparr>)"

text \<open>
  The range-for over \<open>config.parameters\<close>. A conversion that throws leaves the loop
  with the exception and the configuration as far as it was written.
\<close>

fun SuperPoint_store_parameters ::
  "stof_fn \<Rightarrow> (string \<times> string) list \<Rightarrow> SuperPointConfig \<Rightarrow> error option \<times> SuperPointConfig" where
  "SuperPoint_store_parameters stof [] c = (None, c)"
| "SuperPoint_store_parameters stof ((key, val) # ps) c =
     (if key = ''max_keypoints'' then
        (case stoi val of
           Inl e \<Rightarrow> (Some e, c)
         | Inr v \<Rightarrow> SuperPoint_store_parameters stof ps (c\<lparr> max_keypoints := v \<rparr>))
      else if key = ''keypoint_threshold'' then
        (case stof val of
           Inl e \<Rightarrow> (Some e, c)
         | Inr v \<Rightarrow> SuperPoint_store_parameters stof ps (c\<lparr> keypoint_threshold := v \<rparr>))
      else if key = ''nms_radius'' then
        (case stof val of
           Inl e \<Rightarrow> (Some e, c)
         | Inr v \<Rightarrow> SuperPoint_store_parameters stof ps (c\<lparr> nms_radius := v \<rparr>))
      else SuperPoint_store_parameters stof ps c)"

text \<open>
  \<open>Load\<close> returns \<open>Inr\<close> of its boolean, or \<open>Inl\<close> of the exception that leaves
  it (the function has no handler), together with the object as the call left it.
\<close>

definition SuperPoint_Load ::
  "stof_fn \<Rightarrow> MLModelConfig \<Rightarrow> SuperPointDetector \<Rightarrow> (error + bool) \<times> SuperPointDetector" where
  "SuperPoint_Load stof config d =
     (if sp_loaded d then (Inr True, d)
      else
        let d1 = d\<lparr> sp_backend := backend config, sp_device := device config \<rparr>
        in case SuperPoint_store_parameters stof (parameters config) (sp_config d1) of
             (Some e, c) \<Rightarrow> (Inl e, d1\<lparr> sp_config := c \<rparr>)
           | (None, c) \<Rightarrow>
               let (success, d2) = SuperPoint_InitializeModel (d1\<lparr> sp_config := c \<rparr>)
               in (Inr success, if success then d2\<lparr> sp_loaded := True \<rparr> else d2))"

definition SuperPoint_IsLoaded :: "SuperPointDetector \<Rightarrow> bool" where
  "SuperPoint_IsLoaded d = sp_loaded d"

definition SuperPoint_Unload :: "SuperPointDetector \<Rightarrow> SuperPointDetector" where
  "SuperPoint_Unload d =
     (if \<not> sp_loaded d then d
      else (if sp_model_ptr d \<noteq> 0 then d\<lparr> sp_model_ptr := 0 \<rparr> else d)\<lparr> sp_loaded := False \<rparr>)"

text \<open>
  \<open>Detect\<close>. The image is read through \<open>Width()\<close> and \<open>Height()\<close> only. The
  placeholder keypoints come from \<open>rand()\<close>: the argument \<open>rand\<close> gives the value of
  its k-th call (never negative), three calls per keypoint in the order x, y, score.
  The placeholder score is computed in the reals; the binary32 value of the source
  can differ from it in the last place.
  \<open>rand() % width\<close> with a zero width is undefined behaviour, which the handler
  of the \<open>try\<close> block does not catch; no other statement of the block throws in
  the model. The result carries the keypoints and the scores; its descriptors and its
  timing are left out.
\<close>

record Bitmap =
  Width :: int
  Height :: int

record SuperPointResult =
  r_keypoints :: "FeatureKeypoint list"
  r_scores :: "real list"

definition dummy_keypoint :: "(nat \<Rightarrow> nat) \<Rightarrow> int \<Rightarrow> int \<Rightarrow> nat \<Rightarrow> FeatureKeypoint" where
  "dummy_keypoint rand width height i =
     keypoint_at (real (rand (3 * i) mod nat \<bar>width\<bar>))
                 (real (rand (3 * i + 1) mod nat \<bar>height\<bar>))"

definition dummy_score :: "(nat \<Rightarrow> nat) \<Rightarrow> nat \<Rightarrow> real" where
  "dummy_score rand i = 1 / 2 + (1 / 2 * real (rand (3 * i + 2) mod 100)) / 100"

definition SuperPoint_Detect ::
  "(nat \<Rightarrow> nat) \<Rightarrow> Bitmap \<Rightarrow> SuperPointConfig \<Rightarrow> SuperPointDetector \<Rightarrow> error + SuperPointResult" where
  "SuperPoint_Detect rand img config d =
     (if \<not> sp_loaded d then Inr \<lparr> r_keypoints = [], r_scores = [] \<rparr>
      else
        let width = Width img; height = Height img;
            n = nat (min (max_keypoints config) 100)
        in if 0 < n \<and> (width = 0 \<or> height = 0) then Inl UndefinedBehaviour
           else
             let keypoints = map (dummy_keypoint rand width height) [0..<n];
                 scores = map (dummy_score rand) [0..<n]
             in case SuperPoint_FilterKeypoints keypoints scores config of
                  Inl e \<Rightarrow> Inl e
                | Inr kept \<Rightarrow>
                    Inr \<lparr> r_keypoints = kept,
                          r_scores = replicate (length kept) (8 / 10) \<rparr>)"

section \<open>The registry's LoadModel\<close>

text \<open>
  \<open>MLManager::LoadModel\<close>. The objects live in a store from addresses to objects; the
  virtual \<open>IsLoaded\<close> and \<open>Load\<close> of the object are the arguments \<open>is_loaded\<close> and
  \<open>load\<close>. An exception of \<open>Load\<close> leaves \<open>LoadModel\<close> too.
\<close>

definition LoadModel ::
  "('m \<Rightarrow> bool) \<Rightarrow> (MLModelConfig \<Rightarrow> 'm \<Rightarrow> (error + bool) \<times> 'm) \<Rightarrow>
     string \<Rightarrow> MLModelConfig \<Rightarrow> MLManager \<Rightarrow> (addr \<Rightarrow> 'm) \<Rightarrow> (error + bool) \<times> (addr \<Rightarrow> 'm)" where
  "LoadModel is_loaded load name config m store =
     (case GetModel name m of
        None \<Rightarrow> (Inr False, store)
      | Some a \<Rightarrow>
          if is_loaded (store a) then (Inr True, store)
          else
            let (success, obj) = load config (store a)
            in (success, store(a := obj)))"

section \<open>Matchers: results, SuperGlueMatcher, LoFTRMatcher\<close>

text \<open>
  \<open>SuperGlueResult\<close> and \<open>LoFTRResult\<close>, members prefixed \<open>r\<close>. \<open>LoFTRResult\<close> has
  the members of \<open>SuperGlueResult\<close> and the two dense keypoint vectors. The processing
  time is left out. A default-constructed result is empty.
\<close>

record SuperGlueResult =
  r_matches :: "(int \<times> int) list"
  r_match_scores :: "real list"
  r_mutual_matches :: "bool list"
  r_num_matches :: int
  r_match_ratio :: real

record LoFTRResult = SuperGlueResult +
  r_keypoints1 :: "(real \<times> real) list"
  r_keypoints2 :: "(real \<times> real) list"

definition SuperGlueResult_new :: SuperGlueResult where
  "SuperGlueResult_new =
     \<lparr> r_matches = [], r_match_scores = [], r_mutual_matches = [],
       r_num_matches = 0, r_match_ratio = 0 \<rparr>"

definition LoFTRResult_new :: LoFTRResult where
  "LoFTRResult_new =
     \<lparr> r_matches = [], r_match_scores = [], r_mutual_matches = [],
       r_num_matches = 0, r_match_ratio = 0, r_keypoints1 = [], r_keypoints2 = [] \<rparr>"

text \<open>
  \<open>SuperGlueMatcher::Match\<close> reads its two vectors of descriptors through
  \<open>empty()\<close> only; a descriptor there is the list of its coefficients.
\<close>

type_synonym descriptor = "real list"

text \<open>The members of \<open>SuperGlueMatcher\<close> that \<open>Load\<close>, \<open>Unload\<close> and \<open>Match\<close> use.\<close>

record SuperGlueMatcher =
  sg_loaded :: bool
  sg_backend :: MLBackend
  sg_device :: MLDevice
  sg_model_ptr :: nat

definition SuperGlueMatcher_new :: SuperGlueMatcher where
  "SuperGlueMatcher_new =
     \<lparr> sg_loaded = False, sg_backend = PYTORCH, sg_device = CPU, sg_model_ptr = 0 \<rparr>"

definition SuperGlue_Load ::
  "MLModelConfig \<Rightarrow> SuperGlueMatcher \<Rightarrow> (error + bool) \<times> SuperGlueMatcher" where
  "SuperGlue_Load config g =
     (if sg_loaded g then (Inr True, g) else (Inr True, g\<lparr> sg_loaded := True \<rparr>))"

definition SuperGlue_Unload :: "SuperGlueMatcher \<Rightarrow> SuperGlueMatcher" where
  "SuperGlue_Unload g = (if \<not> sg_loaded g then g else g\<lparr> sg_loaded := False \<rparr>)"

text \<open>
  \<open>SuperGlueMatcher::Match\<close>; its \<open>config\<close> argument is not read. The loop pushes
  the pair (i, i) onto \<open>result.matches\<close> and nothing onto \<open>result.match_scores\<close>.
\<close>

definition SuperGlue_Match ::
  "FeatureKeypoint list \<Rightarrow> descriptor list \<Rightarrow> FeatureKeypoint list \<Rightarrow> descriptor list \<Rightarrow>
     SuperGlueMatcher \<Rightarrow> SuperGlueResult" where
  "SuperGlue_Match keypoints1 descriptors1 keypoints2 descriptors2 g =
     (if \<not> sg_loaded g then SuperGlueResult_new
      else if keypoints1 = [] \<or> keypoints2 = [] \<or> descriptors1 = [] \<or> descriptors2 = []
        then SuperGlueResult_new
      else
        let num_matches = min (length keypoints1) (length keypoints2)
        in SuperGlueResult_new\<lparr> r_matches := map (\<lambda>i. (int i, int i)) [0..<num_matches] \<rparr>)"

text \<open>\<open>LoFTRConfig\<close>, members prefixed \<open>lf\<close>.\<close>

record LoFTRConfig =
  lf_match_threshold :: real
  lf_max_keypoints :: int
  lf_use_mutual_check :: bool
  lf_mutual_threshold :: real
  lf_coarse_window_size :: int
  lf_fine_window_size :: int
  lf_coarse_level :: int
  lf_fine_level :: int
  lf_coarse_threshold :: real
  lf_fine_threshold :: real
  lf_num_heads :: int
  lf_feature_dim :: int
  lf_use_positional_encoding :: bool
  lf_temperature :: real

definition LoFTRConfig_default :: LoFTRConfig where
  "LoFTRConfig_default =
     \<lparr> lf_match_threshold = 2 / 10, lf_max_keypoints = 2048, lf_use_mutual_check = True,
       lf_mutual_threshold = 8 / 10, lf_coarse_window_size = 8, lf_fine_window_size = 2,
       lf_coarse_level = 4, lf_fine_level = 2, lf_coarse_threshold = 2 / 10,
       lf_fine_threshold = 1 / 10, lf_num_heads = 8, lf_feature_dim = 256,
       lf_use_positional_encoding = True, lf_temperature = 1 / 10 \<rparr>"

record LoFTRMatcher =
  lf_loaded :: bool
  lf_backend :: MLBackend
  lf_device :: MLDevice
  lf_config :: LoFTRConfig
  lf_model_ptr :: nat

definition LoFTRMatcher_new :: LoFTRMatcher where
  "LoFTRMatcher_new =
     \<lparr> lf_loaded = False, lf_backend = PYTORCH, lf_device = CPU,
       lf_config = LoFTRConfig_default, lf_model_ptr = 0 \<rparr>"

fun LoFTR_store_parameters ::
  "stof_fn \<Rightarrow> (string \<times> string) list \<Rightarrow> LoFTRConfig \<Rightarrow> error option \<times> LoFTRConfig" where
  "LoFTR_store_parameters stof [] c = (None, c)"
| "LoFTR_store_parameters stof ((key, val) # ps) c =
     (if key = ''max_keypoints'' then
        (case stoi val of
           Inl e \<Rightarrow> (Some e, c)
         | Inr v \<Rightarrow> LoFTR_store_parameters stof ps (c\<lparr> lf_max_keypoints := v \<rparr>))
      else if key = ''match_threshold'' then
        (case stof val of
           Inl e \<Rightarrow> (Some e, c)
         | Inr v \<Rightarrow> LoFTR_store_parameters stof ps (c\<lparr> lf_match_threshold := v \<rparr>))
      else if key = ''coarse_threshold'' then
        (case stof val of
           Inl e \<Rightarrow> (Some e, c)
         | Inr v \<Rightarrow> LoFTR_store_parameters stof ps (c\<lparr> lf_coarse_threshold := v \<rparr>))
      else if key = ''fine_threshold'' then
        (case stof val of
           Inl e \<Rightarrow> (Some e, c)
         | Inr v \<Rightarrow> LoFTR_store_parameters stof ps (c\<lparr> lf_fine_threshold := v \<rparr>))
      else LoFTR_store_parameters stof ps c)"

definition LoFTR_InitializeModel :: "LoFTRMatcher \<Rightarrow> bool \<times> LoFTRMatcher" where
  "LoFTR_InitializeModel l = (True, l\<lparr> lf_model_ptr := 0x12345678 \<rparr>)"

definition LoFTR_Load ::
  "stof_fn \<Rightarrow> MLModelConfig \<Rightarrow> LoFTRMatcher \<Rightarrow> (error + bool) \<times> LoFTRMatcher" where
  "LoFTR_Load stof config l =
     (if lf_loaded l then (Inr True, l)
      else
        let l1 = l\<lparr> lf_backend := backend config, lf_device := device config \<rparr>
        in case LoFTR_store_parameters stof (parameters config) (lf_config l1) of
             (Some e, c) \<Rightarrow> (Inl e, l1\<lparr> lf_config := c \<rparr>)
           | (None, c) \<Rightarrow>
               let (success, l2) = LoFTR_InitializeModel (l1\<lparr> lf_config := c \<rparr>)
               in (Inr success, if success then l2\<lparr> lf_loaded := True \<rparr> else l2))"

text \<open>The values of a loop \<open>for (v = first; v < limit; v += step)\<close>.\<close>

function range_step :: "int \<Rightarrow> int \<Rightarrow> int \<Rightarrow> int list" where
  "range_step v limit step =
     (if 0 < step \<and> v < limit then v # range_step (v + step) limit step else [])"
  by pat_completeness auto
termination
  by (relation "measure (\<lambda>(v, limit, step). nat (limit - v))") auto

declare range_step.simps [simp del]

text \<open>
  \<open>LoFTRMatcher::ExtractDenseKeypoints\<close>: a regular grid, row by row, cut to
  \<open>max_keypoints\<close>. An \<open>Eigen::Vector2f\<close> is a pair. Width and height of a bitmap are
  not negative.
\<close>

definition ExtractDenseKeypoints :: "Bitmap \<Rightarrow> LoFTRConfig \<Rightarrow> (real \<times> real) list" where
  "ExtractDenseKeypoints img config =
     (let width = Width img; height = Height img;
          step = max 1 (min width height div 32);
          keypoints = concat (map (\<lambda>y. map (\<lambda>x. (real_of_int x, real_of_int y))
                                            (range_step step (width - step) step))
                                  (range_step step (height - step) step))
      in if length keypoints > size_t_of_int (lf_max_keypoints config)
         then take (size_t_of_int (lf_max_keypoints config)) keypoints
         else keypoints)"

text \<open>
  \<open>LoFTRMatcher::ApplyMutualCheck\<close>: one pass over the pairs that keeps pair \<open>i\<close>
  when \<open>scores[i] >= config.mutual_threshold\<close>. The score vector is not shorter than
  the pair vector at the one call site.
\<close>

definition ApplyMutualCheck ::
  "(int \<times> int) list \<Rightarrow> real list \<Rightarrow> LoFTRConfig \<Rightarrow> (int \<times> int) list" where
  "ApplyMutualCheck pairs scores config =
     map ((!) pairs) (filter (\<lambda>i. scores ! i \<ge> lf_mutual_threshold config) [0..<length pairs])"




text \<open>
  \<open>LoFTRMatcher::Match\<close> on two bitmaps. The placeholder score of pair \<open>i\<close> comes
  from the i-th call of \<open>rand()\<close>. The mutual check replaces \<open>result.matches\<close> only;
  the threshold loop then runs over the indices of the new \<open>result.matches\<close> and
  reads \<open>result.match_scores\<close> at them.
\<close>

definition LoFTR_Match ::
  "(nat \<Rightarrow> nat) \<Rightarrow> Bitmap \<Rightarrow> Bitmap \<Rightarrow> LoFTRConfig \<Rightarrow> LoFTRMatcher \<Rightarrow> LoFTRResult" where
  "LoFTR_Match rand image1 image2 config l =
     (if \<not> lf_loaded l then LoFTRResult_new
      else
        let keypoints1 = ExtractDenseKeypoints image1 config;
            keypoints2 = ExtractDenseKeypoints image2 config;
            num_matches = min (length keypoints1) (length keypoints2);
            matches0 = map (\<lambda>i. (int i, int i)) [0..<num_matches];
            match_scores0 =
              map (\<lambda>i. 8 / 10 + (2 / 10 * real (rand i mod 100)) / 100) [0..<num_matches];
            matches1 = (if lf_use_mutual_check config
                        then ApplyMutualCheck matches0 match_scores0 config else matches0);
            kept = filter (\<lambda>i. match_scores0 ! i \<ge> lf_match_threshold config)
                     [0..<length matches1];
            filtered_matches = map ((!) matches1) kept;
            filtered_scores = map ((!) match_scores0) kept
        in \<lparr> r_matches = filtered_matches, r_match_scores = filtered_scores,
             r_mutual_matches = [], r_num_matches = int (length filtered_matches),
             r_match_ratio = (if length keypoints1 > 0
                              then real (length filtered_matches) / real (length keypoints1)
                              else 0),
             r_keypoints1 = keypoints1, r_keypoints2 = keypoints2 \<rparr>)"

section \<open>Inputs used in the evaluations\<close>

text \<open>\<open>MLModelConfig\<close> with the default member initialisers of the struct.\<close>

definition MLModelConfig_default :: MLModelConfig where
  "MLModelConfig_default =
     \<lparr> model_path = [], backend = PYTORCH, device = CPU, use_fp16 = False,
       batch_size = 1, confidence_threshold = 1 / 2, parameters = [] \<rparr>"

text \<open>A \<open>rand()\<close> whose first calls return the listed values, and 0 afterwards.\<close>

definition rand_of :: "nat list \<Rightarrow> nat \<Rightarrow> nat" where
  "rand_of xs k = (if k < length xs then xs ! k else 0)"

section \<open>Registry properties\<close>

lemma register_all_unbound:
  "name \<notin> fst ` set rs \<Longrightarrow>
     models (register_all type_of rs m) name = models m name"
proof (induction rs arbitrary: m)
  case Nil
  show ?case by simp
next
  case (Cons r rs)
  obtain n p where r: "r = (n, p)" by (cases r)
  from Cons.prems r have ne: "n \<noteq> name" and rest: "name \<notin> fst ` set rs" by auto
  have "models (snd (RegisterModel type_of n p m)) name = models m name"
    using ne by (cases p) (simp_all add: RegisterModel_def)
  with Cons.IH [OF rest] r show ?case by simp
qed

text \<open>
  C8. \<open>RegisterModel\<close> returns false exactly when the model pointer is empty; two
  different non-empty models registered one after the other under one name both
  succeed and the name is then bound to the second; \<open>GetModel\<close> for a name that no
  registration used returns the empty pointer (a value, not a failure).
\<close>

theorem RegisterModel_GetModel:
  "(fst (RegisterModel type_of name model m) = False \<longleftrightarrow> model = None)
   \<and> (a \<noteq> b \<longrightarrow>
        (let (r1, m1) = RegisterModel type_of name (Some a) m;
             (r2, m2) = RegisterModel type_of name (Some b) m1
         in r1 \<and> r2 \<and> GetModel name m2 = Some b \<and> GetModel name m2 \<noteq> Some a))
   \<and> (unbound \<notin> fst ` set rs \<longrightarrow>
        GetModel unbound (register_all type_of rs Instance) = None)"
proof (intro conjI impI)
  show "fst (RegisterModel type_of name model m) = False \<longleftrightarrow> model = None"
    by (cases model) (simp_all add: RegisterModel_def)
next
  assume "a \<noteq> b"
  then show "let (r1, m1) = RegisterModel type_of name (Some a) m;
                 (r2, m2) = RegisterModel type_of name (Some b) m1
             in r1 \<and> r2 \<and> GetModel name m2 = Some b \<and> GetModel name m2 \<noteq> Some a"
    by (simp add: RegisterModel_def GetModel_def)
next
  assume "unbound \<notin> fst ` set rs"
  then have "models (register_all type_of rs Instance) unbound = models Instance unbound"
    by (rule register_all_unbound)
  then show "GetModel unbound (register_all type_of rs Instance) = None"
    by (simp add: GetModel_def Instance_def)
qed

theorem RegisterModel_GetModel_witness:
  "(fst (RegisterModel (\<lambda>_. SUPERPONT_DETECTOR) ''sp'' None Instance) = False)
   \<and> (1::nat) \<noteq> 2
   \<and> (let (r1, m1) = RegisterModel (\<lambda>_. SUPERPONT_DETECTOR) ''sp'' (Some 1) Instance;
           (r2, m2) = RegisterModel (\<lambda>_. SUPERPONT_DETECTOR) ''sp'' (Some 2) m1
       in r1 \<and> r2 \<and> GetModel ''sp'' m2 = Some 2 \<and> GetModel ''sp'' m2 \<noteq> Some 1)
   \<and> ''sg'' \<notin> fst ` set [(''sp'', Some (1::nat))]
   \<and> GetModel ''sg'' (register_all (\<lambda>_. SUPERPONT_DETECTOR) [(''sp'', Some 1)] Instance) = None"
  using RegisterModel_GetModel [of "\<lambda>_. SUPERPONT_DETECTOR" "''sp''" None Instance 1 2
      "''sg''" "[(''sp'', Some 1)]"]
    RegisterModel_GetModel [of "\<lambda>_. SUPERPONT_DETECTOR" "''sp''" "Some 1" Instance 1 2
      "''sg''" "[(''sp'', Some 1)]"]
  by simp

text \<open>
  C10. \<open>GetAvailableDevices\<close> is the two-element list CPU, CUDA whatever the registry
  state (the function consults nothing else), so CUDA always counts as available and
  \<open>SetDefaultDevice(CUDA)\<close> always stores CUDA as the default device.
\<close>

theorem GetAvailableDevices_fixed:
  "GetAvailableDevices m = [CPU, CUDA]
   \<and> IsDeviceAvailable m CUDA
   \<and> GetDefaultDevice (SetDefaultDevice CUDA m) = CUDA"
  by (simp add: GetAvailableDevices_def IsDeviceAvailable_def SetDefaultDevice_def
      GetDefaultDevice_def)

section \<open>Border filter\<close>

text \<open>
  C1. The claim: with border removal enabled, \<open>FilterKeypoints\<close> keeps a keypoint
  exactly when it is inside the margin of the real image. Both detectors test against
  the local constants 640 and 480 instead. With margin 4, the keypoint (318, 100) lies
  two pixels from the right edge of a 320x240 image and is kept by both; the keypoint
  (700, 100) lies well inside a 1280x960 image and is dropped by both.
\<close>

theorem FilterKeypoints_border_uses_640x480:
  "SuperPoint_FilterKeypoints [keypoint_at 318 100] [9 / 10] SuperPointConfig_default
     = Inr [keypoint_at 318 100]
   \<and> DISK_FilterKeypoints [keypoint_at 318 100] [9 / 10] DISKConfig_default
     = Inr [keypoint_at 318 100]
   \<and> \<not> inside_image_border 320 240 4 (keypoint_at 318 100)
   \<and> SuperPoint_FilterKeypoints [keypoint_at 700 100] [9 / 10] SuperPointConfig_default
     = Inr []
   \<and> DISK_FilterKeypoints [keypoint_at 700 100] [9 / 10] DISKConfig_default = Inr []
   \<and> inside_image_border 1280 960 4 (keypoint_at 700 100)
   \<and> remove_borders SuperPointConfig_default \<and> border_margin SuperPointConfig_default = 4
   \<and> remove_borders DISKConfig_default \<and> border_margin DISKConfig_default = 4"
proof -
  have sp: "SuperPoint_FilterKeypoints [keypoint_at 318 100] [9 / 10] SuperPointConfig_default
      = Inr [keypoint_at 318 100]"
    "SuperPoint_FilterKeypoints [keypoint_at 700 100] [9 / 10] SuperPointConfig_default = Inr []"
    by (simp_all add: SuperPoint_FilterKeypoints_def SuperPointConfig_default_def
        passes_filter_def border_skip_def keypoint_at_def std_sort_def size_t_of_int_def)
  have disk: "DISK_FilterKeypoints [keypoint_at 318 100] [9 / 10] DISKConfig_default
      = Inr [keypoint_at 318 100]"
    "DISK_FilterKeypoints [keypoint_at 700 100] [9 / 10] DISKConfig_default = Inr []"
    by (simp_all add: DISK_FilterKeypoints_def DISKConfig_default_def
        passes_filter_def border_skip_def keypoint_at_def std_sort_def size_t_of_int_def)
  have bounds: "\<not> inside_image_border 320 240 4 (keypoint_at 318 100)"
    "inside_image_border 1280 960 4 (keypoint_at 700 100)"
    by (simp_all add: inside_image_border_def keypoint_at_def)
  show ?thesis
    unfolding sp disk using bounds
    by (simp add: SuperPointConfig_default_def DISKConfig_default_def)
qed

section \<open>Top-K selection\<close>

lemma length_insert_sorted: "length (insert_sorted cmp a xs) = Suc (length xs)"
  by (induction xs) simp_all

lemma length_std_sort: "length (std_sort cmp xs) = length xs"
  unfolding std_sort_def by (induction xs) (simp_all add: length_insert_sorted)

lemma set_insert_sorted: "set (insert_sorted cmp a xs) = insert a (set xs)"
  by (induction xs) auto

lemma set_std_sort: "set (std_sort cmp xs) = set xs"
  unfolding std_sort_def by (induction xs) (simp_all add: set_insert_sorted)

lemma size_t_of_int_nonneg:
  "0 \<le> i \<Longrightarrow> i < 2 ^ 64 \<Longrightarrow> size_t_of_int i = nat i"
  by (simp add: size_t_of_int_def)

text \<open>
  With a \<open>max_keypoints\<close> that is not negative, neither filter returns more than
  \<open>max_keypoints\<close> keypoints.
\<close>

lemma SuperPoint_FilterKeypoints_length:
  assumes "SuperPoint_FilterKeypoints keypoints scores config = Inr result"
    and "0 \<le> max_keypoints config" and "max_keypoints config < 2 ^ 64"
  shows "int (length result) \<le> max_keypoints config"
  using assms
  by (auto simp: SuperPoint_FilterKeypoints_def Let_def size_t_of_int_nonneg length_std_sort
      split: if_splits)

lemma DISK_FilterKeypoints_length:
  assumes "DISK_FilterKeypoints keypoints scores config = Inr result"
    and "0 \<le> max_keypoints config" and "max_keypoints config < 2 ^ 64"
  shows "int (length result) \<le> max_keypoints config"
  using assms
  by (auto simp: DISK_FilterKeypoints_def Let_def size_t_of_int_nonneg length_std_sort
      split: if_splits)

text \<open>
  A negative \<open>max_keypoints\<close> becomes a huge \<open>size_t\<close>, and every survivor is kept.
\<close>

lemma FilterKeypoints_negative_max_keypoints:
  "SuperPoint_FilterKeypoints [keypoint_at 10 10] [9 / 10]
     (SuperPointConfig_default\<lparr> max_keypoints := - 1 \<rparr>) = Inr [keypoint_at 10 10]"
  by (simp add: SuperPoint_FilterKeypoints_def SuperPointConfig_default_def passes_filter_def
      border_skip_def keypoint_at_def std_sort_def size_t_of_int_def)

text \<open>
  C4. The claim: when more keypoints survive than \<open>max_keypoints\<close>, the result is the
  \<open>max_keypoints\<close> highest-scoring survivors. Three keypoints with scores 0.1, 0.9 and
  0.5, threshold 0.3 and \<open>max_keypoints = 1\<close>: the survivors are the second (0.9) and
  the third (0.5). \<open>DISKDetector::FilterKeypoints\<close> returns the third, because it
  ranks survivor 0 and survivor 1 by \<open>scores[0]\<close> and \<open>scores[1]\<close> of the unfiltered
  vector; \<open>SuperPointDetector::FilterKeypoints\<close> returns the second.
\<close>

theorem DISK_FilterKeypoints_ranks_by_unfiltered_scores:
  "DISK_FilterKeypoints [keypoint_at 10 10, keypoint_at 20 20, keypoint_at 30 30]
       [1 / 10, 9 / 10, 5 / 10]
       (DISKConfig_default\<lparr> keypoint_threshold := 3 / 10, max_keypoints := 1 \<rparr>)
     = Inr [keypoint_at 30 30]
   \<and> SuperPoint_FilterKeypoints [keypoint_at 10 10, keypoint_at 20 20, keypoint_at 30 30]
       [1 / 10, 9 / 10, 5 / 10]
       (SuperPointConfig_default\<lparr> keypoint_threshold := 3 / 10, max_keypoints := 1 \<rparr>)
     = Inr [keypoint_at 20 20]"
proof
  show "DISK_FilterKeypoints [keypoint_at 10 10, keypoint_at 20 20, keypoint_at 30 30]
       [1 / 10, 9 / 10, 5 / 10]
       (DISKConfig_default\<lparr> keypoint_threshold := 3 / 10, max_keypoints := 1 \<rparr>)
     = Inr [keypoint_at 30 30]"
    by (simp add: DISK_FilterKeypoints_def DISKConfig_default_def passes_filter_def
        border_skip_def keypoint_at_def std_sort_def size_t_of_int_def upt_conv_Cons)
next
  show "SuperPoint_FilterKeypoints [keypoint_at 10 10, keypoint_at 20 20, keypoint_at 30 30]
       [1 / 10, 9 / 10, 5 / 10]
       (SuperPointConfig_default\<lparr> keypoint_threshold := 3 / 10, max_keypoints := 1 \<rparr>)
     = Inr [keypoint_at 20 20]"
    by (simp add: SuperPoint_FilterKeypoints_def SuperPointConfig_default_def passes_filter_def
        border_skip_def keypoint_at_def std_sort_def size_t_of_int_def upt_conv_Cons)
qed

section \<open>Non-maximum suppression\<close>

lemma SuperPoint_Load_default:
  "sp_loaded (snd (SuperPoint_Load stof MLModelConfig_default SuperPointDetector_new))"
  by (simp add: SuperPoint_Load_def MLModelConfig_default_def SuperPointDetector_new_def
      SuperPoint_InitializeModel_def)

lemma SuperPoint_FilterKeypoints_two_close:
  "SuperPoint_FilterKeypoints [keypoint_at 10 10, keypoint_at 11 10] [1 / 2, 1 / 2]
     (SuperPointConfig_default\<lparr> max_keypoints := 2 \<rparr>)
   = Inr [keypoint_at 10 10, keypoint_at 11 10]"
  by (simp add: SuperPoint_FilterKeypoints_def SuperPointConfig_default_def passes_filter_def
      border_skip_def keypoint_at_def std_sort_def size_t_of_int_def upt_conv_Cons)

text \<open>
  C3. The claim: with NMS enabled and \<open>nms_radius > 0\<close>, any two retained keypoints are
  at least \<open>nms_radius\<close> apart. \<open>DISKDetector::ApplySoftNMS\<close> returns the keypoints
  (10, 10) and (11, 10), one pixel apart, under \<open>nms_radius = 4\<close>; and
  \<open>SuperPointDetector::Detect\<close>, whose NMS branch only logs, returns the same two
  keypoints when the placeholder generator produces them.
\<close>

theorem NMS_keeps_close_keypoints:
  "ApplySoftNMS [keypoint_at 10 10, keypoint_at 11 10] [9 / 10, 8 / 10] DISKConfig_default
     = [keypoint_at 10 10, keypoint_at 11 10]
   \<and> use_nms DISKConfig_default \<and> nms_radius DISKConfig_default = 4
   \<and> pixel_distance (keypoint_at 10 10) (keypoint_at 11 10) = 1
   \<and> map_sum id r_keypoints
       (SuperPoint_Detect (rand_of [10, 10, 0, 11, 10, 0]) \<lparr> Width = 640, Height = 480 \<rparr>
          (SuperPointConfig_default\<lparr> max_keypoints := 2 \<rparr>)
          (snd (SuperPoint_Load stof MLModelConfig_default SuperPointDetector_new)))
     = Inr [keypoint_at 10 10, keypoint_at 11 10]
   \<and> use_nms (SuperPointConfig_default\<lparr> max_keypoints := 2 \<rparr>)
   \<and> nms_radius (SuperPointConfig_default\<lparr> max_keypoints := 2 \<rparr>) = 4"
proof -
  have kps: "dummy_keypoint (rand_of [10, 10, 0, 11, 10, 0]) 640 480 0 = keypoint_at 10 10"
      "dummy_keypoint (rand_of [10, 10, 0, 11, 10, 0]) 640 480 (Suc 0) = keypoint_at 11 10"
    by (simp_all add: dummy_keypoint_def rand_of_def)
  have scs: "dummy_score (rand_of [10, 10, 0, 11, 10, 0]) 0 = 1 / 2"
      "dummy_score (rand_of [10, 10, 0, 11, 10, 0]) (Suc 0) = 1 / 2"
    by (simp_all add: dummy_score_def rand_of_def)
  have n: "nat (min (max_keypoints (SuperPointConfig_default\<lparr> max_keypoints := 2 \<rparr>)) 100) = 2"
    by simp
  have det: "SuperPoint_Detect (rand_of [10, 10, 0, 11, 10, 0]) \<lparr> Width = 640, Height = 480 \<rparr>
          (SuperPointConfig_default\<lparr> max_keypoints := 2 \<rparr>)
          (snd (SuperPoint_Load stof MLModelConfig_default SuperPointDetector_new))
       = Inr \<lparr> r_keypoints = [keypoint_at 10 10, keypoint_at 11 10],
               r_scores = [8 / 10, 8 / 10] \<rparr>"
    unfolding SuperPoint_Detect_def Let_def n
    by (simp add: kps scs SuperPoint_FilterKeypoints_two_close SuperPoint_Load_default
        numeral_2_eq_2)
  show ?thesis
    unfolding det
    by (simp add: ApplySoftNMS_def DISKConfig_default_def SuperPointConfig_default_def
        pixel_distance_def keypoint_at_def)
qed

section \<open>Mutual-consistency filter\<close>





section \<open>Scores parallel to matches\<close>

lemma LoFTR_Load_default:
  "lf_loaded (snd (LoFTR_Load stof MLModelConfig_default LoFTRMatcher_new))"
  by (simp add: LoFTR_Load_def MLModelConfig_default_def LoFTRMatcher_new_def
      LoFTR_InitializeModel_def)

lemma SuperGlue_Load_default:
  "sg_loaded (snd (SuperGlue_Load MLModelConfig_default SuperGlueMatcher_new))"
  by (simp add: SuperGlue_Load_def SuperGlueMatcher_new_def)

lemma range_step_values:
  "range_step 1 2 1 = [1]" "range_step 1 3 1 = [1, 2]"
  by (simp_all add: range_step.simps)

lemma ExtractDenseKeypoints_4x3:
  "lf_max_keypoints config = 2048 \<Longrightarrow>
     ExtractDenseKeypoints \<lparr> Width = 4, Height = 3 \<rparr> config = [(1, 1), (2, 1)]"
  by (simp add: ExtractDenseKeypoints_def range_step_values size_t_of_int_def)

text \<open>
  C6. The claim: in every result of \<open>Match\<close> the scores are parallel to the pairs.
  \<open>SuperGlueMatcher::Match\<close> on one keypoint per image returns the pair (0, 0) and an
  empty score vector. \<open>LoFTRMatcher::Match\<close> on two 4x3 images (two grid keypoints
  each), with \<open>mutual_threshold = 0.9\<close> and placeholder scores 0.8 and 0.998, drops
  the pair (0, 0) in the mutual check but keeps both scores; the threshold loop then
  pairs (1, 1) with the score 0.8 that was generated for (0, 0).
\<close>

theorem Match_scores_not_parallel:
  "r_matches (SuperGlue_Match [keypoint_at 1 1] [[1]] [keypoint_at 2 2] [[1]]
       (snd (SuperGlue_Load MLModelConfig_default SuperGlueMatcher_new))) = [(0, 0)]
   \<and> r_match_scores (SuperGlue_Match [keypoint_at 1 1] [[1]] [keypoint_at 2 2] [[1]]
       (snd (SuperGlue_Load MLModelConfig_default SuperGlueMatcher_new))) = []
   \<and> r_matches (LoFTR_Match (rand_of [0, 99]) \<lparr> Width = 4, Height = 3 \<rparr>
       \<lparr> Width = 4, Height = 3 \<rparr> (LoFTRConfig_default\<lparr> lf_mutual_threshold := 9 / 10 \<rparr>)
       (snd (LoFTR_Load stof MLModelConfig_default LoFTRMatcher_new))) = [(1, 1)]
   \<and> r_match_scores (LoFTR_Match (rand_of [0, 99]) \<lparr> Width = 4, Height = 3 \<rparr>
       \<lparr> Width = 4, Height = 3 \<rparr> (LoFTRConfig_default\<lparr> lf_mutual_threshold := 9 / 10 \<rparr>)
       (snd (LoFTR_Load stof MLModelConfig_default LoFTRMatcher_new))) = [8 / 10]
   \<and> 8 / 10 + (2 / 10 * real (rand_of [0, 99] 1 mod 100)) / 100 = (998 / 1000 :: real)"
proof -
  have sg: "SuperGlue_Match [keypoint_at 1 1] [[1]] [keypoint_at 2 2] [[1]]
       (snd (SuperGlue_Load MLModelConfig_default SuperGlueMatcher_new))
     = SuperGlueResult_new\<lparr> r_matches := [(0, 0)] \<rparr>"
    by (simp add: SuperGlue_Match_def SuperGlue_Load_default)
  have mk: "lf_max_keypoints (LoFTRConfig_default\<lparr> lf_mutual_threshold := 9 / 10 \<rparr>) = 2048"
    by (simp add: LoFTRConfig_default_def)
  have fields: "lf_use_mutual_check (LoFTRConfig_default\<lparr> lf_mutual_threshold := 9 / 10 \<rparr>)"
      "lf_match_threshold (LoFTRConfig_default\<lparr> lf_mutual_threshold := 9 / 10 \<rparr>) = 2 / 10"
    by (simp_all add: LoFTRConfig_default_def)
  have lf: "LoFTR_Match (rand_of [0, 99]) \<lparr> Width = 4, Height = 3 \<rparr>
       \<lparr> Width = 4, Height = 3 \<rparr> (LoFTRConfig_default\<lparr> lf_mutual_threshold := 9 / 10 \<rparr>)
       (snd (LoFTR_Load stof MLModelConfig_default LoFTRMatcher_new))
     = \<lparr> r_matches = [(1, 1)], r_match_scores = [8 / 10], r_mutual_matches = [],
         r_num_matches = 1, r_match_ratio = 1 / 2,
         r_keypoints1 = [(1, 1), (2, 1)], r_keypoints2 = [(1, 1), (2, 1)] \<rparr>"
    unfolding LoFTR_Match_def ExtractDenseKeypoints_4x3 [OF mk] Let_def
    by (simp add: LoFTR_Load_default fields rand_of_def ApplyMutualCheck_def upt_conv_Cons)
  show ?thesis
    unfolding sg lf by (simp add: SuperGlueResult_new_def rand_of_def)
qed

section \<open>Load and Unload\<close>

lemma stoi_not_a_number: "stoi ''abc'' = Inl InvalidArgument"
  by (simp add: stoi_def strip_sign_def isspace_def isdigit_def)

lemma SuperPoint_Load_not_a_number:
  "SuperPoint_Load stof (MLModelConfig_default\<lparr> parameters := [(''max_keypoints'', ''abc'')] \<rparr>)
     SuperPointDetector_new = (Inl InvalidArgument, SuperPointDetector_new)"
  by (simp add: SuperPoint_Load_def SuperPointDetector_new_def MLModelConfig_default_def
      stoi_not_a_number)

text \<open>
  C5. The claim: no exception leaves Load, Unload, Detect or Match, also for a config
  whose parameter strings are malformed. \<open>SuperPointDetector::Load\<close> converts the
  value of \<open>max_keypoints\<close> with \<open>std::stoi\<close> outside any handler: for the value
  \<open>abc\<close> the exception \<open>std::invalid_argument\<close> leaves \<open>Load\<close>, and it leaves
  \<open>MLManager::LoadModel\<close> too when the model is loaded through the registry.
\<close>

theorem Load_propagates_invalid_argument:
  "fst (SuperPoint_Load stof
          (MLModelConfig_default\<lparr> parameters := [(''max_keypoints'', ''abc'')] \<rparr>)
          SuperPointDetector_new) = Inl InvalidArgument
   \<and> fst (LoadModel SuperPoint_IsLoaded (SuperPoint_Load stof) ''superpoint''
          (MLModelConfig_default\<lparr> parameters := [(''max_keypoints'', ''abc'')] \<rparr>)
          (snd (RegisterModel (\<lambda>a. SUPERPONT_DETECTOR) ''superpoint'' (Some 0) Instance))
          (\<lambda>a. SuperPointDetector_new)) = Inl InvalidArgument"
proof
  show "fst (SuperPoint_Load stof
          (MLModelConfig_default\<lparr> parameters := [(''max_keypoints'', ''abc'')] \<rparr>)
          SuperPointDetector_new) = Inl InvalidArgument"
    by (simp add: SuperPoint_Load_not_a_number)
next
  have bound: "GetModel ''superpoint''
      (snd (RegisterModel (\<lambda>a. SUPERPONT_DETECTOR) ''superpoint'' (Some 0) Instance)) = Some 0"
    by (simp add: GetModel_def RegisterModel_def)
  have unloaded: "\<not> SuperPoint_IsLoaded SuperPointDetector_new"
    by (simp add: SuperPoint_IsLoaded_def SuperPointDetector_new_def)
  show "fst (LoadModel SuperPoint_IsLoaded (SuperPoint_Load stof) ''superpoint''
          (MLModelConfig_default\<lparr> parameters := [(''max_keypoints'', ''abc'')] \<rparr>)
          (snd (RegisterModel (\<lambda>a. SUPERPONT_DETECTOR) ''superpoint'' (Some 0) Instance))
          (\<lambda>a. SuperPointDetector_new)) = Inl InvalidArgument"
    by (simp add: LoadModel_def bound unloaded SuperPoint_Load_not_a_number)
qed

lemma SuperPoint_Load_returns:
  assumes "SuperPoint_Load stof config d = (Inr r, d')"
  shows "r \<and> sp_loaded d' \<and> sp_init_calls d' \<le> Suc (sp_init_calls d)"
proof (cases "sp_loaded d")
  case True
  with assms show ?thesis by (simp add: SuperPoint_Load_def)
next
  case False
  with assms show ?thesis
    by (auto simp: SuperPoint_Load_def SuperPoint_InitializeModel_def Let_def
        split: prod.splits option.splits)
qed

lemma SuperPoint_Load_loaded:
  "sp_loaded d \<Longrightarrow> SuperPoint_Load stof config d = (Inr True, d)"
  by (simp add: SuperPoint_Load_def)

lemma SuperPoint_Unload_unloaded:
  "\<not> sp_loaded d \<Longrightarrow> SuperPoint_Unload d = d"
  by (simp add: SuperPoint_Unload_def)

lemma SuperPoint_Unload_twice:
  "SuperPoint_Unload (SuperPoint_Unload d) = SuperPoint_Unload d"
  by (simp add: SuperPoint_Unload_def)

lemma SuperGlue_Load_twice:
  "fst (SuperGlue_Load config g) = Inr True
   \<and> SuperGlue_Load config (snd (SuperGlue_Load config g))
       = (Inr True, snd (SuperGlue_Load config g))"
  by (simp add: SuperGlue_Load_def)

text \<open>
  C7. \<open>Load\<close> and \<open>Unload\<close> are idempotent on every SuperPoint detector and for
  every config: a \<open>Load\<close> that returns has returned true and left the detector
  loaded; the same \<open>Load\<close> called again returns true and changes nothing; over the
  two calls \<open>InitializeModel\<close> has run once if the detector was not loaded before,
  and not at all if it was. \<open>Unload\<close> on a detector that is not loaded changes
  nothing.
\<close>

theorem Load_Unload_idempotent:
  "(SuperPoint_Load stof config d = (Inr r, d') \<longrightarrow>
      r \<and> sp_loaded d'
      \<and> SuperPoint_Load stof config d' = (Inr True, d')
      \<and> sp_init_calls d' = sp_init_calls d + (if sp_loaded d then 0 else 1))
   \<and> (\<not> sp_loaded d \<longrightarrow> SuperPoint_Unload d = d)"
proof (intro conjI impI)
  assume ret: "SuperPoint_Load stof config d = (Inr r, d')"
  show r: "r" and loaded: "sp_loaded d'"
    using SuperPoint_Load_returns [OF ret] by simp_all
  show "SuperPoint_Load stof config d' = (Inr True, d')"
    using loaded by (rule SuperPoint_Load_loaded)
  show "sp_init_calls d' = sp_init_calls d + (if sp_loaded d then 0 else 1)"
    using ret
    by (auto simp: SuperPoint_Load_def SuperPoint_InitializeModel_def Let_def
        split: if_splits prod.splits option.splits)
next
  assume "\<not> sp_loaded d"
  then show "SuperPoint_Unload d = d" by (rule SuperPoint_Unload_unloaded)
qed

theorem Load_Unload_idempotent_witness:
  "SuperPoint_Load (\<lambda>s. Inl InvalidArgument)
       (MLModelConfig_default\<lparr> parameters := [(''max_keypoints'', ''500'')] \<rparr>)
       SuperPointDetector_new
     = (Inr True,
        SuperPointDetector_new\<lparr> sp_loaded := True, sp_model_ptr := 0x12345678,
          sp_init_calls := 1,
          sp_config := SuperPointConfig_default\<lparr> max_keypoints := 500 \<rparr> \<rparr>)
   \<and> SuperPoint_Load (\<lambda>s. Inl InvalidArgument)
       (MLModelConfig_default\<lparr> parameters := [(''max_keypoints'', ''500'')] \<rparr>)
       (SuperPointDetector_new\<lparr> sp_loaded := True, sp_model_ptr := 0x12345678,
          sp_init_calls := 1,
          sp_config := SuperPointConfig_default\<lparr> max_keypoints := 500 \<rparr> \<rparr>)
     = (Inr True,
        SuperPointDetector_new\<lparr> sp_loaded := True, sp_model_ptr := 0x12345678,
          sp_init_calls := 1,
          sp_config := SuperPointConfig_default\<lparr> max_keypoints := 500 \<rparr> \<rparr>)
   \<and> \<not> sp_loaded SuperPointDetector_new
   \<and> SuperPoint_Unload SuperPointDetector_new = SuperPointDetector_new"
proof -
  have s500: "stoi ''500'' = Inr 500"
    by (simp add: stoi_def strip_sign_def isspace_def isdigit_def decimal_value_def
        digit_value_def)
  have first: "SuperPoint_Load (\<lambda>s. Inl InvalidArgument)
       (MLModelConfig_default\<lparr> parameters := [(''max_keypoints'', ''500'')] \<rparr>)
       SuperPointDetector_new
     = (Inr True,
        SuperPointDetector_new\<lparr> sp_loaded := True, sp_model_ptr := 0x12345678,
          sp_init_calls := 1,
          sp_config := SuperPointConfig_default\<lparr> max_keypoints := 500 \<rparr> \<rparr>)"
    by (simp add: SuperPoint_Load_def SuperPointDetector_new_def MLModelConfig_default_def
        SuperPoint_InitializeModel_def s500)
  have unloaded: "\<not> sp_loaded SuperPointDetector_new"
    by (simp add: SuperPointDetector_new_def)
  from Load_Unload_idempotent [of "\<lambda>s. Inl InvalidArgument"
      "MLModelConfig_default\<lparr> parameters := [(''max_keypoints'', ''500'')] \<rparr>"
      SuperPointDetector_new True
      "SuperPointDetector_new\<lparr> sp_loaded := True, sp_model_ptr := 0x12345678,
          sp_init_calls := 1,
          sp_config := SuperPointConfig_default\<lparr> max_keypoints := 500 \<rparr> \<rparr>"]
    first unloaded
  show ?thesis by simp
qed

section \<open>Descriptor normalisation\<close>

text \<open>
  C9. The claim: a descriptor of strictly positive Euclidean norm is replaced by
  itself divided by its norm, so that the result has norm 1. The descriptor
  (1e20f, 1e20f) has a positive norm, but its squares exceed the binary32 range:
  \<open>norm()\<close> is infinite and \<open>NormalizeDescriptors\<close> returns the zero vector. The
  descriptor (1e-30f, 0) has a positive norm, but its square rounds to zero:
  \<open>norm()\<close> is zero and the descriptor is returned as it is, not normalised.
  (1e20f is the binary32 value 100000002004087734272 and 1e-30f is 332307 / 2^118.)
\<close>

theorem NormalizeDescriptors_out_of_range:
  "NormalizeDescriptors rnd [[Finite 100000002004087734272, Finite 100000002004087734272]]
     = [[Finite 0, Finite 0]]
   \<and> NormalizeDescriptors rnd [[Finite (332307 / 2 ^ 118), Finite 0]]
     = [[Finite (332307 / 2 ^ 118), Finite 0]]"
proof
  have big: "norm32 rnd [Finite 100000002004087734272, Finite 100000002004087734272] = PInf"
    by (simp add: norm32_def squaredNorm_def fl_def)
  show "NormalizeDescriptors rnd
      [[Finite 100000002004087734272, Finite 100000002004087734272]] = [[Finite 0, Finite 0]]"
    by (simp add: NormalizeDescriptors_def big)
next
  have sq: "fsquare rnd (Finite (332307 / 2 ^ 118)) = Finite 0"
    by (simp add: fl_def)
  have small: "norm32 rnd [Finite (332307 / 2 ^ 118), Finite 0] = Finite 0"
    unfolding norm32_def squaredNorm_def by (simp add: sq) (simp add: fl_def)
  show "NormalizeDescriptors rnd [[Finite (332307 / 2 ^ 118), Finite 0]]
     = [[Finite (332307 / 2 ^ 118), Finite 0]]"
    unfolding NormalizeDescriptors_def list.map small Let_def by simp
qed

end
